theory Spec2Isabelle
  imports Main "HOL-Library.Option_ord" "HOL-Library.Multiset"
begin

section \<open>Python values, errors and the announcement entity\<close>

text \<open>
  The module is \<^verbatim>\<open>modules/announcements/announcements.py\<close> of Course Builder: two
  request handlers over a datastore of announcement entities.  Handlers are modelled by
  explicit state passing: a handler takes the environment of the request, the store
  and the request, and returns the store it leaves together with either the exception
  it raised (\<open>Inl\<close>) or the response it produced (\<open>Inr\<close>).
\<close>

text \<open>A \<^verbatim>\<open>datetime.date\<close>, by its proleptic Gregorian ordinal.\<close>

type_synonym date = int

text \<open>
  What \<^verbatim>\<open>json.loads\<close> returns and \<^verbatim>\<open>json.dumps\<close> takes.  A Python dict is an
  association list in insertion order; a lookup finds the first entry of a name.
  Floating point numbers are left out: no announcement field is a number.
\<close>

datatype json =
    JNull
  | JBool bool
  | JInt int
  | JString string
  | JArray "json list"
  | JObject "(string \<times> json) list"

text \<open>
  The values of the dictionaries the transforms exchange with entities: \<^verbatim>\<open>None\<close>, a
  boolean, a string, a date, and a datastore key object.
\<close>

datatype pyval = PNone | PBool bool | PStr string | PDate date | PKey nat

type_synonym pydict = "(string \<times> pyval) list"

text \<open>The exceptions the module can meet; none but \<open>BadKeyError\<close> is ever caught.\<close>

datatype py_error =
    ValueError
  | TypeError
  | AttributeError
  | KeyError
  | BadKeyError
  | BadArgumentError
  | BadValueError
  | NotSavedError

text \<open>
  \<^verbatim>\<open>class AnnouncementEntity(db.Model)\<close>: four properties, none with a default, so each
  is \<^verbatim>\<open>None\<close> until it is set; \<open>key\<close> is the numeric id of the datastore key,
  \<open>None\<close> until the entity is first put.
\<close>

record AnnouncementEntity =
  key :: "nat option"
  title :: "string option"
  date :: "date option"
  html :: "string option"
  is_draft :: "bool option"

text \<open>\<^verbatim>\<open>AnnouncementEntity()\<close>: a fresh, unsaved entity.\<close>

definition new_entity :: AnnouncementEntity where
  "new_entity = \<lparr>key = None, title = None, date = None, html = None, is_draft = None\<rparr>"

section \<open>The environment of a request\<close>

text \<open>
  Everything the module calls but does not define is a field of the environment, so
  every theorem holds whatever these collaborators compute: the current user
  (\<^verbatim>\<open>users.is_current_user_admin\<close>, \<^verbatim>\<open>personalize_page_and_get_user\<close>, the
  enrolment lookup), URL helpers, the \<^verbatim>\<open>json\<close> library (\<open>None\<close> is \<^verbatim>\<open>ValueError\<close>),
  the decoding of a key string by \<^verbatim>\<open>db.Key\<close> (\<open>None\<close> is \<^verbatim>\<open>db.BadKeyError\<close>) and
  its encoding by \<^verbatim>\<open>str\<close>, the ISO date format of the transforms, today's date, the
  sample announcements and the object editor's form.
\<close>

record env =
  is_current_user_admin :: bool
  personalize_page_and_get_user :: "string option"
  get_enrolled_student_by_email :: "string \<Rightarrow> bool"
  create_login_url :: "string \<Rightarrow> string"
  canonicalize_url :: "string \<Rightarrow> string"
  urlencode :: "(string \<times> string) list \<Rightarrow> string"
  quote :: "string \<Rightarrow> string"
  json_loads :: "string \<Rightarrow> json option"
  json_dumps :: "json \<Rightarrow> string"
  Key :: "string \<Rightarrow> nat option"
  str_of_key :: "nat \<Rightarrow> string"
  strptime :: "string \<Rightarrow> date option"
  strftime :: "date \<Rightarrow> string"
  now_date :: date
  SAMPLE_ANNOUNCEMENTS :: "pydict list"
  get_html_for :: "string \<Rightarrow> string \<Rightarrow> string \<Rightarrow> string"

text \<open>
  The request: its parameters and its URI.  \<^verbatim>\<open>self.request.get(name)\<close> is the first
  value of the parameter, the empty string when there is none.
\<close>

record request =
  params :: "(string \<times> string) list"
  uri :: string

definition request_get :: "request \<Rightarrow> string \<Rightarrow> string" where
  "request_get req name = (case map_of (params req) name of None \<Rightarrow> [] | Some v \<Rightarrow> v)"

section \<open>Rights\<close>

definition can_view :: "env \<Rightarrow> bool" where
  "can_view e = True"

definition can_edit :: "env \<Rightarrow> bool" where
  "can_edit e = is_current_user_admin e"

definition can_delete :: "env \<Rightarrow> bool" where
  "can_delete e = can_edit e"

definition can_add :: "env \<Rightarrow> bool" where
  "can_add e = can_edit e"

text \<open>
  \<^verbatim>\<open>apply_rights\<close>: an editor gets the items as they are; for anyone else the loop
  appends to \<open>allowed\<close> each item for which \<^verbatim>\<open>not item.is_draft\<close> holds, that is, whose
  flag is \<^verbatim>\<open>False\<close> or unset.
\<close>

fun apply_rights_loop ::
  "AnnouncementEntity list \<Rightarrow> AnnouncementEntity list \<Rightarrow> AnnouncementEntity list" where
  "apply_rights_loop allowed [] = allowed"
| "apply_rights_loop allowed (item # items) =
     apply_rights_loop (if is_draft item \<noteq> Some True then allowed @ [item] else allowed) items"

definition apply_rights :: "env \<Rightarrow> AnnouncementEntity list \<Rightarrow> AnnouncementEntity list" where
  "apply_rights e items = (if can_edit e then items else apply_rights_loop [] items)"

section \<open>The record store\<close>

text \<open>
  The datastore is a library, modelled as the list of the saved entities, oldest first.
  An entity carries its own key, so a lookup needs no invariant of the list.
\<close>

type_synonym store = "AnnouncementEntity list"

definition db_get :: "store \<Rightarrow> nat \<Rightarrow> AnnouncementEntity option" where
  "db_get st k = find (\<lambda>x. key x = Some k) st"

text \<open>The id given to an entity put for the first time: one past every id in use.\<close>

definition allocate_id :: "store \<Rightarrow> nat" where
  "allocate_id st = Suc (fold max (map (\<lambda>x. case key x of None \<Rightarrow> 0 | Some k \<Rightarrow> k) st) 0)"

text \<open>
  \<^verbatim>\<open>entity.put()\<close>: an unsaved entity gets its key and is added; a saved one replaces
  the stored entity of its key.  The result is the store and the entity as saved.
\<close>

definition db_put :: "store \<Rightarrow> AnnouncementEntity \<Rightarrow> store \<times> AnnouncementEntity" where
  "db_put st entity =
     (case key entity of
        None \<Rightarrow> (let saved = entity\<lparr>key := Some (allocate_id st)\<rparr> in (st @ [saved], saved))
      | Some k \<Rightarrow>
          (if db_get st k = None then (st @ [entity], entity)
           else (map (\<lambda>x. if key x = Some k then entity else x) st, entity)))"

text \<open>\<^verbatim>\<open>entity.delete()\<close>.\<close>

definition db_delete :: "store \<Rightarrow> AnnouncementEntity \<Rightarrow> store" where
  "db_delete st entity = filter (\<lambda>x. key x \<noteq> key entity) st"

text \<open>
  \<^verbatim>\<open>AnnouncementEntity.all().order('-date').fetch(limit)\<close>: the entities by date,
  latest first (an unset date last), at most \<open>limit\<close> of them.
\<close>

definition fetch_order_date_desc :: "nat \<Rightarrow> store \<Rightarrow> AnnouncementEntity list" where
  "fetch_order_date_desc limit st = take limit (rev (sort_key date (rev st)))"

text \<open>
  \<^verbatim>\<open>AnnouncementEntity.get(key)\<close> for a key given by its string encoding: a string that
  is not the encoding of a key raises \<^verbatim>\<open>db.BadKeyError\<close>, a key of no stored entity
  gives \<^verbatim>\<open>None\<close>.
\<close>

definition AnnouncementEntity_get ::
  "env \<Rightarrow> store \<Rightarrow> string \<Rightarrow> py_error + AnnouncementEntity option" where
  "AnnouncementEntity_get e st encoded =
     (case Key e encoded of None \<Rightarrow> Inl BadKeyError | Some k \<Rightarrow> Inr (db_get st k))"

text \<open>
  The same call on a value decoded from JSON, as the REST PUT makes it: a single key is
  a string; \<^verbatim>\<open>None\<close> or a number is refused with \<^verbatim>\<open>BadArgumentError\<close>, and so is, in
  this model, the batch form (a list of keys), which the module never sends.
\<close>

definition AnnouncementEntity_get_json ::
  "env \<Rightarrow> store \<Rightarrow> json \<Rightarrow> py_error + AnnouncementEntity option" where
  "AnnouncementEntity_get_json e st v =
     (case v of JString encoded \<Rightarrow> AnnouncementEntity_get e st encoded | _ \<Rightarrow> Inl BadArgumentError)"

section \<open>The transforms and the schema\<close>

text \<open>
  Modelled from the spec: the constant \<^verbatim>\<open>schema.SCHEMA_DICT\<close> is not among the
  sources.  The spec's data model has a short text title, a calendar date, a text body
  and a boolean draft flag; the properties carry the names of the entity's attributes
  (\<open>html\<close> is the body, \<open>is_draft\<close> the spec's isDraft).
\<close>

datatype field_type = TString | TDate | TText | TBoolean

definition SCHEMA_DICT :: "(string \<times> field_type) list" where
  "SCHEMA_DICT =
     [(''title'', TString), (''date'', TDate), (''html'', TText), (''is_draft'', TBoolean)]"

text \<open>
  Modelled from the spec: \<^verbatim>\<open>transforms.entity_to_dict\<close> is not among the sources.  The
  record as a dictionary: its key by its string encoding (the list view reads
  \<^verbatim>\<open>item['key']\<close>) and its four properties.
\<close>

definition entity_to_dict :: "env \<Rightarrow> AnnouncementEntity \<Rightarrow> pydict" where
  "entity_to_dict e entity =
     [(''key'', case key entity of None \<Rightarrow> PNone | Some k \<Rightarrow> PStr (str_of_key e k)),
      (''title'', case title entity of None \<Rightarrow> PNone | Some s \<Rightarrow> PStr s),
      (''date'', case date entity of None \<Rightarrow> PNone | Some d \<Rightarrow> PDate d),
      (''html'', case html entity of None \<Rightarrow> PNone | Some s \<Rightarrow> PStr s),
      (''is_draft'', case is_draft entity of None \<Rightarrow> PNone | Some b \<Rightarrow> PBool b)]"

text \<open>
  Modelled from the spec: \<^verbatim>\<open>transforms.dict_to_json\<close> is not among the sources.  The
  record as JSON per the schema: the schema's properties that the dictionary has, in the
  schema's order (a field whitelist), a date in the ISO format.
\<close>

fun value_to_json :: "env \<Rightarrow> pyval \<Rightarrow> json" where
  "value_to_json e PNone = JNull"
| "value_to_json e (PBool b) = JBool b"
| "value_to_json e (PStr s) = JString s"
| "value_to_json e (PDate d) = JString (strftime e d)"
| "value_to_json e (PKey k) = JString (str_of_key e k)"

fun dict_to_json :: "env \<Rightarrow> pydict \<Rightarrow> (string \<times> field_type) list \<Rightarrow> (string \<times> json) list" where
  "dict_to_json e source_dict [] = []"
| "dict_to_json e source_dict ((name, ty) # schema) =
     (case map_of source_dict name of
        None \<Rightarrow> dict_to_json e source_dict schema
      | Some v \<Rightarrow> (name, value_to_json e v) # dict_to_json e source_dict schema)"

text \<open>
  Modelled from the spec: \<^verbatim>\<open>transforms.json_to_dict\<close> is not among the sources.  The
  incoming fields, constrained by the schema: only the schema's properties are read,
  each converted by its type; a value of another type, or a date that does not parse,
  is a \<^verbatim>\<open>ValueError\<close>, and a document that is not an object a \<^verbatim>\<open>TypeError\<close>.
\<close>

fun json_to_value :: "env \<Rightarrow> field_type \<Rightarrow> json \<Rightarrow> py_error + pyval" where
  "json_to_value e ty JNull = Inr PNone"
| "json_to_value e TString (JString s) = Inr (PStr s)"
| "json_to_value e TText (JString s) = Inr (PStr s)"
| "json_to_value e TDate (JString s) =
     (case strptime e s of None \<Rightarrow> Inl ValueError | Some d \<Rightarrow> Inr (PDate d))"
| "json_to_value e TBoolean (JBool b) = Inr (PBool b)"
| "json_to_value e ty v = Inl ValueError"

fun json_fields_to_dict ::
  "env \<Rightarrow> (string \<times> json) list \<Rightarrow> (string \<times> field_type) list \<Rightarrow> py_error + pydict" where
  "json_fields_to_dict e source [] = Inr []"
| "json_fields_to_dict e source ((name, ty) # schema) =
     (case map_of source name of
        None \<Rightarrow> json_fields_to_dict e source schema
      | Some v \<Rightarrow>
          (case json_to_value e ty v of
             Inl err \<Rightarrow> Inl err
           | Inr pv \<Rightarrow>
               (case json_fields_to_dict e source schema of
                  Inl err \<Rightarrow> Inl err
                | Inr d \<Rightarrow> Inr ((name, pv) # d))))"

definition json_to_dict ::
  "env \<Rightarrow> json \<Rightarrow> (string \<times> field_type) list \<Rightarrow> py_error + pydict" where
  "json_to_dict e source schema =
     (case source of JObject source_dict \<Rightarrow> json_fields_to_dict e source_dict schema | _ \<Rightarrow> Inl TypeError)"

text \<open>
  Modelled from the spec: \<^verbatim>\<open>transforms.dict_to_entity\<close> is not among the sources.  The
  fields of the dictionary are applied onto the record, in order; a name that is no
  property of the record is skipped, and a value its property does not take is refused
  (\<^verbatim>\<open>BadValueError\<close>).  The key is never touched.
\<close>

definition set_property :: "AnnouncementEntity \<Rightarrow> string \<Rightarrow> pyval \<Rightarrow> py_error + AnnouncementEntity" where
  "set_property entity name v =
     (if name = ''title'' then
        (case v of PNone \<Rightarrow> Inr (entity\<lparr>title := None\<rparr>)
                 | PStr s \<Rightarrow> Inr (entity\<lparr>title := Some s\<rparr>)
                 | _ \<Rightarrow> Inl BadValueError)
      else if name = ''date'' then
        (case v of PNone \<Rightarrow> Inr (entity\<lparr>date := None\<rparr>)
                 | PDate d \<Rightarrow> Inr (entity\<lparr>date := Some d\<rparr>)
                 | _ \<Rightarrow> Inl BadValueError)
      else if name = ''html'' then
        (case v of PNone \<Rightarrow> Inr (entity\<lparr>html := None\<rparr>)
                 | PStr s \<Rightarrow> Inr (entity\<lparr>html := Some s\<rparr>)
                 | _ \<Rightarrow> Inl BadValueError)
      else if name = ''is_draft'' then
        (case v of PNone \<Rightarrow> Inr (entity\<lparr>is_draft := None\<rparr>)
                 | PBool b \<Rightarrow> Inr (entity\<lparr>is_draft := Some b\<rparr>)
                 | _ \<Rightarrow> Inl BadValueError)
      else Inr entity)"

fun dict_to_entity :: "AnnouncementEntity \<Rightarrow> pydict \<Rightarrow> py_error + AnnouncementEntity" where
  "dict_to_entity entity [] = Inr entity"
| "dict_to_entity entity ((name, v) # source_dict) =
     (case set_property entity name v of
        Inl err \<Rightarrow> Inl err
      | Inr entity' \<Rightarrow> dict_to_entity entity' source_dict)"

section \<open>The announcements handler\<close>

text \<open>What a handler leaves behind: an HTTP error, a redirect, a rendered template with
  the template values the handler set, or a body written to the response.\<close>

datatype tval =
    TStr string
  | TBool bool
  | TItems "pydict list"
  | TDict "(string \<times> tval) list"

datatype response =
    Error nat
  | Redirect string
  | Render string "(string \<times> tval) list"
  | Write string

type_synonym outcome = "store \<times> (py_error + response)"

definition default_action :: string where
  "default_action = ''list''"

definition get_actions :: "string list" where
  "get_actions = [default_action, ''edit'']"

definition post_actions :: "string list" where
  "post_actions = [''add'', ''delete'']"

text \<open>Python's truth value of a dictionary value, and its \<^verbatim>\<open>str\<close>.\<close>

fun truthy :: "pyval \<Rightarrow> bool" where
  "truthy PNone = False"
| "truthy (PBool b) = b"
| "truthy (PStr s) = (s \<noteq> [])"
| "truthy (PDate d) = True"
| "truthy (PKey k) = True"

fun py_str :: "env \<Rightarrow> pyval \<Rightarrow> string" where
  "py_str e PNone = ''None''"
| "py_str e (PBool b) = (if b then ''True'' else ''False'')"
| "py_str e (PStr s) = s"
| "py_str e (PDate d) = strftime e d"
| "py_str e (PKey k) = str_of_key e k"

text \<open>\<^verbatim>\<open>item[name] = v\<close> on a dictionary.\<close>

fun dict_set :: "('k \<times> 'v) list \<Rightarrow> 'k \<Rightarrow> 'v \<Rightarrow> ('k \<times> 'v) list" where
  "dict_set [] name v = [(name, v)]"
| "dict_set ((n, w) # d) name v = (if n = name then (name, v) # d else (n, w) # dict_set d name v)"

definition get_action_url :: "env \<Rightarrow> string \<Rightarrow> pyval \<Rightarrow> string" where
  "get_action_url e action k =
     (let args = [(''action'', action)] @ (if truthy k then [(''key'', py_str e k)] else [])
      in canonicalize_url e (''/announcements?'' @ urlencode e args))"

fun format_items_loop ::
  "env \<Rightarrow> pydict list \<Rightarrow> AnnouncementEntity list \<Rightarrow> py_error + pydict list" where
  "format_items_loop e template_items [] = Inr template_items"
| "format_items_loop e template_items (entity # items) =
     (let item = entity_to_dict e entity in
      if can_edit e then
        (case map_of item ''key'' of
           None \<Rightarrow> Inl KeyError
         | Some k \<Rightarrow>
             format_items_loop e
               (template_items @
                [dict_set (dict_set item ''edit_action'' (PStr (get_action_url e ''edit'' k)))
                   ''delete_action'' (PStr (get_action_url e ''delete'' k))])
               items)
      else format_items_loop e (template_items @ [item]) items)"

definition format_items_for_template ::
  "env \<Rightarrow> AnnouncementEntity list \<Rightarrow> py_error + (string \<times> tval) list" where
  "format_items_for_template e items =
     (case format_items_loop e [] items of
        Inl err \<Rightarrow> Inl err
      | Inr template_items \<Rightarrow>
          Inr ([(''children'', TItems template_items)] @
               (if can_edit e then [(''add_action'', TStr (get_action_url e ''add'' PNone))]
                else [])))"

text \<open>\<^verbatim>\<open>put_sample_announcements\<close>: one new entity per sample, put in the samples' order.\<close>

fun put_sample_loop ::
  "store \<Rightarrow> AnnouncementEntity list \<Rightarrow> pydict list \<Rightarrow>
   store \<times> (py_error + AnnouncementEntity list)" where
  "put_sample_loop st items [] = (st, Inr items)"
| "put_sample_loop st items (item # samples) =
     (case dict_to_entity new_entity item of
        Inl err \<Rightarrow> (st, Inl err)
      | Inr entity \<Rightarrow>
          (case db_put st entity of
             (st', saved) \<Rightarrow> put_sample_loop st' (items @ [saved]) samples))"

definition put_sample_announcements ::
  "env \<Rightarrow> store \<Rightarrow> store \<times> (py_error + AnnouncementEntity list)" where
  "put_sample_announcements e st = put_sample_loop st [] (SAMPLE_ANNOUNCEMENTS e)"

definition get_list :: "env \<Rightarrow> store \<Rightarrow> request \<Rightarrow> outcome" where
  "get_list e st req =
     (case personalize_page_and_get_user e of
        None \<Rightarrow> (st, Inr (Redirect (create_login_url e (uri req))))
      | Some email \<Rightarrow>
          if \<not> get_enrolled_student_by_email e email then (st, Inr (Redirect ''/preview''))
          else
            (case (let items = fetch_order_date_desc 1000 st in
                   if items = [] then put_sample_announcements e st else (st, Inr items)) of
               (st', Inl err) \<Rightarrow> (st', Inl err)
             | (st', Inr items) \<Rightarrow>
                 (case format_items_for_template e (apply_rights e items) of
                    Inl err \<Rightarrow> (st', Inl err)
                  | Inr announcements \<Rightarrow>
                      (st', Inr (Render ''announcements.html''
                         [(''announcements'', TDict announcements),
                          (''navbar'', TDict [(''announcements'', TBool True)])])))))"

definition get_edit :: "env \<Rightarrow> store \<Rightarrow> request \<Rightarrow> outcome" where
  "get_edit e st req =
     (if \<not> can_edit e then (st, Inr (Error 401))
      else
        (let k = request_get req ''key'';
             exit_url = canonicalize_url e (''/announcements#'' @ quote e k);
             rest_url = canonicalize_url e ''/rest/announcements/item'';
             form_html = get_html_for e k rest_url exit_url
         in (st, Inr (Render ''bare.html''
               [(''navbar'', TDict [(''announcements'', TBool True)]),
                (''content'', TStr form_html)]))))"

definition post_delete :: "env \<Rightarrow> store \<Rightarrow> request \<Rightarrow> outcome" where
  "post_delete e st req =
     (if \<not> can_delete e then (st, Inr (Error 401))
      else
        (let k = request_get req ''key'' in
         case AnnouncementEntity_get e st k of
           Inl err \<Rightarrow> (st, Inl err)
         | Inr None \<Rightarrow> (st, Inr (Redirect ''/announcements''))
         | Inr (Some entity) \<Rightarrow> (db_delete st entity, Inr (Redirect ''/announcements''))))"

definition post_add :: "env \<Rightarrow> store \<Rightarrow> request \<Rightarrow> outcome" where
  "post_add e st req =
     (if \<not> can_add e then (st, Inr (Error 401))
      else
        (let entity = new_entity
               \<lparr>title := Some ''Sample Announcement'',
                date := Some (now_date e),
                html := Some ''Here is my announcement!'',
                is_draft := Some True\<rparr>
         in case db_put st entity of
              (st', saved) \<Rightarrow>
                (case key saved of
                   None \<Rightarrow> (st', Inl NotSavedError)
                 | Some k \<Rightarrow> (st', Inr (Redirect (get_action_url e ''edit'' (PKey k)))))))"

text \<open>
  \<^verbatim>\<open>getattr(self, name)\<close> for the names the dispatch builds: the four action methods
  (a bound method is true, so the \<^verbatim>\<open>if not handler\<close> branches are never taken); a
  name that is no attribute raises \<^verbatim>\<open>AttributeError\<close>.
\<close>

definition getattr_handler :: "string \<Rightarrow> (env \<Rightarrow> store \<Rightarrow> request \<Rightarrow> outcome) option" where
  "getattr_handler name =
     (if name = ''get_list'' then Some get_list
      else if name = ''get_edit'' then Some get_edit
      else if name = ''post_add'' then Some post_add
      else if name = ''post_delete'' then Some post_delete
      else None)"

definition AnnouncementsHandler_get :: "env \<Rightarrow> store \<Rightarrow> request \<Rightarrow> outcome" where
  "AnnouncementsHandler_get e st req =
     (let action = request_get req ''action'';
          action = (if action = [] then default_action else action)
      in if action \<notin> set get_actions then (st, Inr (Error 404))
         else
           (case getattr_handler (''get_'' @ action) of
              None \<Rightarrow> (st, Inl AttributeError)
            | Some handler \<Rightarrow> handler e st req))"

definition AnnouncementsHandler_post :: "env \<Rightarrow> store \<Rightarrow> request \<Rightarrow> outcome" where
  "AnnouncementsHandler_post e st req =
     (let action = request_get req ''action''
      in if action = [] \<or> action \<notin> set post_actions then (st, Inr (Error 404))
         else
           (case getattr_handler (''post_'' @ action) of
              None \<Rightarrow> (st, Inl AttributeError)
            | Some handler \<Rightarrow> handler e st req))"

section \<open>The REST handler\<close>

text \<open>
  \<^verbatim>\<open>send_json_response\<close>: the response dictionary gets its status and its message, and,
  when a payload dictionary is given and not empty, the payload serialised to a string;
  the dictionary is then serialised and written.
\<close>

definition json_response ::
  "env \<Rightarrow> int \<Rightarrow> string \<Rightarrow> (string \<times> json) list option \<Rightarrow> (string \<times> json) list" where
  "json_response e status_code message payload_dict =
     [(''status'', JInt status_code), (''message'', JString message)] @
     (case payload_dict of
        None \<Rightarrow> []
      | Some d \<Rightarrow> if d = [] then [] else [(''payload'', JString (json_dumps e (JObject d)))])"

definition send_json_response ::
  "env \<Rightarrow> int \<Rightarrow> string \<Rightarrow> (string \<times> json) list option \<Rightarrow> response" where
  "send_json_response e status_code message payload_dict =
     Write (json_dumps e (JObject (json_response e status_code message payload_dict)))"

definition ItemRESTHandler_get :: "env \<Rightarrow> store \<Rightarrow> request \<Rightarrow> outcome" where
  "ItemRESTHandler_get e st req =
     (let k = request_get req ''key'';
          entity = (case AnnouncementEntity_get e st k of
                      Inl err \<Rightarrow> if err = BadKeyError then Inr None else Inl err
                    | Inr found \<Rightarrow> Inr found)
      in case entity of
           Inl err \<Rightarrow> (st, Inl err)
         | Inr None \<Rightarrow>
             (st, Inr (send_json_response e 404 ''Object not found.'' (Some [(''key'', JString k)])))
         | Inr (Some entity) \<Rightarrow>
             (let json_payload = dict_to_json e (entity_to_dict e entity) SCHEMA_DICT
              in (st, Inr (send_json_response e 200 ''Success.'' (Some json_payload)))))"

text \<open>
  \<^verbatim>\<open>ItemRESTHandler.put\<close>.  The request parameter is decoded first: a string that is no
  JSON document raises \<^verbatim>\<open>ValueError\<close>, and a document that is not an object has no
  \<^verbatim>\<open>get\<close> (\<^verbatim>\<open>AttributeError\<close>).  \<^verbatim>\<open>request.get('key')\<close> is \<^verbatim>\<open>None\<close> for an object
  without a key.  \<^verbatim>\<open>json.loads(payload)\<close> of a payload that is not a string is a
  \<^verbatim>\<open>TypeError\<close>.
\<close>

definition ItemRESTHandler_put :: "env \<Rightarrow> store \<Rightarrow> request \<Rightarrow> outcome" where
  "ItemRESTHandler_put e st req =
     (case json_loads e (request_get req ''request'') of
        None \<Rightarrow> (st, Inl ValueError)
      | Some (JObject request_dict) \<Rightarrow>
          (let k = (case map_of request_dict ''key'' of None \<Rightarrow> JNull | Some v \<Rightarrow> v) in
           if \<not> can_edit e then
             (st, Inr (send_json_response e 401 ''Access denied.'' (Some [(''key'', k)])))
           else
             (case AnnouncementEntity_get_json e st k of
                Inl err \<Rightarrow> (st, Inl err)
              | Inr None \<Rightarrow>
                  (st, Inr (send_json_response e 404 ''Object not found.'' (Some [(''key'', k)])))
              | Inr (Some entity) \<Rightarrow>
                  (case map_of request_dict ''payload'' of
                     Some (JString payload) \<Rightarrow>
                       (case json_loads e payload of
                          None \<Rightarrow> (st, Inl ValueError)
                        | Some decoded \<Rightarrow>
                            (case json_to_dict e decoded SCHEMA_DICT of
                               Inl err \<Rightarrow> (st, Inl err)
                             | Inr d \<Rightarrow>
                                 (case dict_to_entity entity d of
                                    Inl err \<Rightarrow> (st, Inl err)
                                  | Inr entity' \<Rightarrow>
                                      (fst (db_put st entity'),
                                       Inr (send_json_response e 200 ''Saved.'' None)))))
                   | _ \<Rightarrow> (st, Inl TypeError))))
      | Some _ \<Rightarrow> (st, Inl AttributeError))"

section \<open>A concrete environment\<close>

text \<open>
  The theorems below hold for every environment.  To run the handlers on concrete
  requests, this section fixes one: \<^verbatim>\<open>json.dumps\<close> on documents of printable ASCII
  (separators \<^verbatim>\<open>", "\<close> and \<^verbatim>\<open>": "\<close>, as Python writes them), and the other library
  functions tabulated on the few arguments the examples use.
\<close>

fun string_of_nat :: "nat \<Rightarrow> string" where
  "string_of_nat n =
     (if n < 10 then [''0123456789'' ! n]
      else string_of_nat (n div 10) @ [''0123456789'' ! (n mod 10)])"

definition dumps_int :: "int \<Rightarrow> string" where
  "dumps_int i = (if i < 0 then CHR ''-'' # string_of_nat (nat (- i)) else string_of_nat (nat i))"

definition dumps_string :: "string \<Rightarrow> string" where
  "dumps_string s =
     [CHR 0x22] @
     concat (map (\<lambda>c. if c = CHR 0x22 \<or> c = CHR 0x5C then [CHR 0x5C, c] else [c]) s) @
     [CHR 0x22]"

fun join :: "string \<Rightarrow> string list \<Rightarrow> string" where
  "join sep [] = []"
| "join sep [x] = x"
| "join sep (x # y # xs) = x @ sep @ join sep (y # xs)"

primrec dumps :: "json \<Rightarrow> string" where
  "dumps JNull = ''null''"
| "dumps (JBool b) = (if b then ''true'' else ''false'')"
| "dumps (JInt i) = dumps_int i"
| "dumps (JString s) = dumps_string s"
| "dumps (JArray vs) = ''['' @ join '', '' (map dumps vs) @ '']''"
| "dumps (JObject kvs) =
     ''{'' @ join '', '' (map (\<lambda>(k, s). dumps_string k @ '': '' @ s) (map (map_prod id dumps) kvs)) @ ''}''"

definition example_fields :: "(string \<times> json) list" where
  "example_fields =
     [(''title'', JString ''X''), (''date'', JString ''2020-01-01''),
      (''html'', JString ''Y''), (''is_draft'', JBool False)]"

definition example_put :: "string \<Rightarrow> (string \<times> json) list" where
  "example_put k = [(''key'', JString k), (''payload'', JString (dumps (JObject example_fields)))]"

text \<open>\<^verbatim>\<open>json.loads\<close> on the documents of the examples; every other string used below (the
  empty string) is no JSON document.\<close>

definition example_loads :: "string \<Rightarrow> json option" where
  "example_loads doc =
     map_of (map (\<lambda>v. (dumps v, v))
       [JArray [], JObject example_fields, JObject (example_put ''key1''),
        JObject (example_put ''key9''), JObject (example_put ''no key'')]) doc"

definition example_samples :: "pydict list" where
  "example_samples =
     [[(''title'', PStr ''Example Announcement''), (''date'', PDate 734782),
       (''html'', PStr ''Welcome to the course.''), (''is_draft'', PBool False)],
      [(''title'', PStr ''Example Draft''), (''date'', PDate 737425),
       (''html'', PStr ''Not yet published.''), (''is_draft'', PBool True)]]"

definition example_env :: "bool \<Rightarrow> env" where
  "example_env admin =
     \<lparr>is_current_user_admin = admin,
      personalize_page_and_get_user = Some ''student@example.com'',
      get_enrolled_student_by_email = (\<lambda>email. email = ''student@example.com''),
      create_login_url = (\<lambda>u. ''/login?continue='' @ u),
      canonicalize_url = (\<lambda>u. u),
      urlencode = (\<lambda>args. join ''&'' (map (\<lambda>(n, v). n @ ''='' @ v) args)),
      quote = (\<lambda>s. s),
      json_loads = example_loads,
      json_dumps = dumps,
      Key = map_of [(''key1'', 1), (''key2'', 2), (''key3'', 3), (''key9'', 9)],
      str_of_key = (\<lambda>k. ''key'' @ string_of_nat k),
      strptime = map_of [(''2020-01-01'', 737425), (''2012-10-06'', 734782)],
      strftime = (\<lambda>d. if d = 737425 then ''2020-01-01''
                       else if d = 734782 then ''2012-10-06'' else []),
      now_date = 737425,
      SAMPLE_ANNOUNCEMENTS = example_samples,
      get_html_for = (\<lambda>k rest_url exit_url. ''<form/>'')\<rparr>"

definition example_store :: store where
  "example_store =
     [\<lparr>key = Some 1, title = Some ''Welcome'', date = Some 734782,
       html = Some ''Welcome to the course.'', is_draft = Some False\<rparr>,
      \<lparr>key = Some 2, title = Some ''Exam'', date = Some 737425,
       html = Some ''Not yet published.'', is_draft = Some True\<rparr>]"

definition example_request :: "(string \<times> string) list \<Rightarrow> request" where
  "example_request ps = \<lparr>params = ps, uri = ''/announcements''\<rparr>"

section \<open>Properties\<close>

lemma apply_rights_loop_filter:
  "apply_rights_loop allowed items = allowed @ filter (\<lambda>item. is_draft item \<noteq> Some True) items"
  by (induction items arbitrary: allowed) simp_all

text \<open>
  C1.  For every list of announcement records: a viewer with edit rights gets every
  record unchanged; a viewer without edit rights gets exactly the records whose draft
  flag is not true (false or unset, the test being \<^verbatim>\<open>not item.is_draft\<close>), in their
  order, so no record with \<open>is_draft\<close> true is in the output and every record with
  \<open>is_draft\<close> false is.
\<close>

theorem apply_rights_hides_exactly_drafts:
  "(can_edit e \<longrightarrow> apply_rights e items = items) \<and>
   (\<not> can_edit e \<longrightarrow>
      apply_rights e items = filter (\<lambda>item. is_draft item \<noteq> Some True) items \<and>
      (\<forall>item \<in> set (apply_rights e items). is_draft item \<noteq> Some True) \<and>
      (\<forall>item \<in> set items. is_draft item = Some False \<longrightarrow> item \<in> set (apply_rights e items)))"
  by (auto simp: apply_rights_def apply_rights_loop_filter)

theorem apply_rights_hides_exactly_drafts_witness:
  "apply_rights (example_env False) example_store = [hd example_store] \<and>
   apply_rights (example_env True) example_store = example_store"
  using apply_rights_hides_exactly_drafts [of "example_env False" example_store]
    apply_rights_hides_exactly_drafts [of "example_env True" example_store]
  by (simp add: can_edit_def example_env_def example_store_def)

subsection \<open>REST PUT without edit rights\<close>

lemma put_store_unchanged_without_edit:
  "\<not> can_edit e \<Longrightarrow> fst (ItemRESTHandler_put e st req) = st"
  by (simp add: ItemRESTHandler_put_def split: option.splits json.splits)

lemma example_request_key1:
  "json_loads (example_env a) (dumps (JObject (example_put ''key1''))) =
   Some (JObject (example_put ''key1''))"
  by (simp add: example_env_def example_loads_def example_put_def example_fields_def
      dumps_string_def)

text \<open>
  C2, as stated, fails: the handler decodes the \<open>request\<close> parameter before it checks
  the rights, so a PUT without that parameter (or with one that is no JSON document)
  raises \<^verbatim>\<open>ValueError\<close> for a viewer without edit rights, and no envelope is written.
\<close>

theorem put_unparsable_request_counterexample:
  "\<not> can_edit (example_env False) \<and>
   ItemRESTHandler_put (example_env False) example_store (example_request []) =
     (example_store, Inl ValueError)"
  by (simp add: can_edit_def ItemRESTHandler_put_def example_env_def example_loads_def
      example_request_def request_get_def example_put_def example_fields_def dumps_string_def)

text \<open>
  C2, amended.  For every REST PUT request by a viewer without edit rights the store is
  left exactly as it was; and when the \<open>request\<close> parameter decodes to a JSON object,
  the handler writes the envelope with status 401, message "Access denied." and, as
  payload, the serialised dictionary holding the request's key (\<^verbatim>\<open>null\<close> when the object
  has none).
\<close>

theorem put_without_edit_rights:
  "\<not> can_edit e \<Longrightarrow>
     fst (ItemRESTHandler_put e st req) = st \<and>
     (\<forall>request_dict.
        json_loads e (request_get req ''request'') = Some (JObject request_dict) \<longrightarrow>
        ItemRESTHandler_put e st req =
          (st, Inr (Write (json_dumps e (JObject
             [(''status'', JInt 401), (''message'', JString ''Access denied.''),
              (''payload'', JString (json_dumps e (JObject
                 [(''key'', case map_of request_dict ''key'' of None \<Rightarrow> JNull | Some v \<Rightarrow> v)])))])))))"
  by (simp add: put_store_unchanged_without_edit)
     (simp add: ItemRESTHandler_put_def send_json_response_def json_response_def)

theorem put_without_edit_rights_witness:
  "ItemRESTHandler_put (example_env False) example_store
     (example_request [(''request'', dumps (JObject (example_put ''key1'')))]) =
   (example_store, Inr (Write (dumps (JObject
      [(''status'', JInt 401), (''message'', JString ''Access denied.''),
       (''payload'', JString (dumps (JObject [(''key'', JString ''key1'')])))]))))"
proof -
  have a: "\<not> can_edit (example_env False)"
    by (simp add: can_edit_def example_env_def)
  have d: "json_dumps (example_env False) = dumps"
    by (simp add: example_env_def)
  show ?thesis
    using put_without_edit_rights [OF a, of example_store
        "example_request [(''request'', dumps (JObject (example_put ''key1'')))]"]
      example_request_key1 [of False]
    by (simp add: d request_get_def example_request_def) (simp add: example_put_def)
qed

subsection \<open>REST PUT: the rights check comes before the lookup\<close>

text \<open>
  C10, as stated, fails for the same reason as C2: what comes first of all is the
  decoding of the request.  A \<open>request\<close> parameter that is a JSON document but not an
  object (here the empty array) makes \<^verbatim>\<open>request.get\<close> raise \<^verbatim>\<open>AttributeError\<close> for a
  viewer without edit rights.
\<close>

theorem put_array_request_counterexample:
  "\<not> can_edit (example_env False) \<and>
   ItemRESTHandler_put (example_env False) example_store
     (example_request [(''request'', ''[]'')]) = (example_store, Inl AttributeError)"
  by (simp add: can_edit_def ItemRESTHandler_put_def example_env_def example_loads_def
      example_request_def request_get_def example_put_def example_fields_def dumps_string_def)

text \<open>
  C10, amended.  For every PUT request by a viewer without edit rights whose \<open>request\<close>
  parameter decodes to a JSON object, whatever the key \<open>k\<close> it carries (none, malformed,
  of no record or of a record): the store is returned as it was and the response is the
  401 envelope; the response is the same on every other store \<open>st'\<close>, so nothing read
  from the store enters it; and it is the 401 envelope whatever the lookup of \<open>k\<close>
  would give (an exception, no record, a record), so 401 takes precedence over 404.
\<close>

theorem put_rights_before_lookup:
  "\<not> can_edit e \<Longrightarrow>
   json_loads e (request_get req ''request'') = Some (JObject request_dict) \<Longrightarrow>
   k = (case map_of request_dict ''key'' of None \<Rightarrow> JNull | Some v \<Rightarrow> v) \<Longrightarrow>
     ItemRESTHandler_put e st req =
       (st, Inr (send_json_response e 401 ''Access denied.'' (Some [(''key'', k)]))) \<and>
     snd (ItemRESTHandler_put e st' req) = snd (ItemRESTHandler_put e st req) \<and>
     (\<forall>lookup. AnnouncementEntity_get_json e st k = lookup \<longrightarrow>
        snd (ItemRESTHandler_put e st req) =
          Inr (send_json_response e 401 ''Access denied.'' (Some [(''key'', k)])))"
  by (simp add: ItemRESTHandler_put_def)

theorem put_rights_before_lookup_witness:
  "ItemRESTHandler_put (example_env False) example_store
     (example_request [(''request'', dumps (JObject (example_put ''key1'')))]) =
     (example_store,
      Inr (send_json_response (example_env False) 401 ''Access denied.''
             (Some [(''key'', JString ''key1'')]))) \<and>
   snd (ItemRESTHandler_put (example_env False) []
     (example_request [(''request'', dumps (JObject (example_put ''key1'')))])) =
   snd (ItemRESTHandler_put (example_env False) example_store
     (example_request [(''request'', dumps (JObject (example_put ''key1'')))]))"
proof -
  have a: "\<not> can_edit (example_env False)"
    by (simp add: can_edit_def example_env_def)
  have r: "json_loads (example_env False)
      (request_get (example_request [(''request'', dumps (JObject (example_put ''key1'')))])
         ''request'') = Some (JObject (example_put ''key1''))"
    using example_request_key1 [of False] by (simp add: request_get_def example_request_def)
  have k: "JString ''key1'' =
      (case map_of (example_put ''key1'') ''key'' of None \<Rightarrow> JNull | Some v \<Rightarrow> v)"
    by (simp add: example_put_def)
  show ?thesis
    using put_rights_before_lookup [OF a r k, of example_store "[]"] by simp
qed

subsection \<open>REST GET\<close>

lemma dict_to_json_entity:
  "dict_to_json e (entity_to_dict e entity) SCHEMA_DICT =
     [(''title'', case title entity of None \<Rightarrow> JNull | Some s \<Rightarrow> JString s),
      (''date'', case date entity of None \<Rightarrow> JNull | Some d \<Rightarrow> JString (strftime e d)),
      (''html'', case html entity of None \<Rightarrow> JNull | Some s \<Rightarrow> JString s),
      (''is_draft'', case is_draft entity of None \<Rightarrow> JNull | Some b \<Rightarrow> JBool b)]"
  by (simp add: entity_to_dict_def SCHEMA_DICT_def split: option.splits)



subsection \<open>The shape of the REST envelope\<close>

lemma send_json_response_shape:
  "\<exists>status message.
     send_json_response e status_code msg payload = Write (json_dumps e (JObject
              [(''status'', JInt status), (''message'', JString message)])) \<or>
     (\<exists>payload_dict.
        send_json_response e status_code msg payload = Write (json_dumps e (JObject
                 [(''status'', JInt status), (''message'', JString message),
                  (''payload'', JString (json_dumps e (JObject payload_dict)))])))"
  by (cases payload) (auto simp: send_json_response_def json_response_def)

lemma rest_get_sends:
  "snd (ItemRESTHandler_get e st req) = Inr resp \<Longrightarrow>
   \<exists>status_code msg payload. resp = send_json_response e status_code msg payload"
  by (auto simp: ItemRESTHandler_get_def Let_def split: option.splits sum.splits if_splits)

lemma rest_put_sends:
  "snd (ItemRESTHandler_put e st req) = Inr resp \<Longrightarrow>
   \<exists>status_code msg payload. resp = send_json_response e status_code msg payload"
  unfolding ItemRESTHandler_put_def Let_def
  by (simp split: option.splits sum.splits json.splits if_splits) blast+

text \<open>
  C9.  Every response the REST handler produces, on GET or on PUT, is the serialisation
  of a JSON object whose \<open>status\<close> is an integer, whose \<open>message\<close> is a string and which
  either has no payload or has as \<open>payload\<close> a JSON string: the serialisation of the
  payload dictionary, embedded as a string and never as a nested object.
\<close>

theorem rest_envelope_shape:
  "snd (ItemRESTHandler_get e st req) = Inr resp \<or>
   snd (ItemRESTHandler_put e st req) = Inr resp \<Longrightarrow>
   \<exists>status message.
     resp = Write (json_dumps e (JObject
              [(''status'', JInt status), (''message'', JString message)])) \<or>
     (\<exists>payload_dict.
        resp = Write (json_dumps e (JObject
                 [(''status'', JInt status), (''message'', JString message),
                  (''payload'', JString (json_dumps e (JObject payload_dict)))])))"
proof -
  assume "snd (ItemRESTHandler_get e st req) = Inr resp \<or>
    snd (ItemRESTHandler_put e st req) = Inr resp"
  then obtain status_code msg payload
    where "resp = send_json_response e status_code msg payload"
    using rest_get_sends rest_put_sends by blast
  then show ?thesis
    using send_json_response_shape [of e status_code msg payload] by simp
qed

theorem rest_envelope_shape_witness:
  "\<exists>status message.
     send_json_response (example_env False) 404 ''Object not found.''
         (Some [(''key'', JString ''no key'')]) =
       Write (json_dumps (example_env False) (JObject
              [(''status'', JInt status), (''message'', JString message)])) \<or>
     (\<exists>payload_dict.
        send_json_response (example_env False) 404 ''Object not found.''
            (Some [(''key'', JString ''no key'')]) =
          Write (json_dumps (example_env False) (JObject
                 [(''status'', JInt status), (''message'', JString message),
                  (''payload'', JString (json_dumps (example_env False) (JObject payload_dict)))])))"
proof -
  have "snd (ItemRESTHandler_get (example_env False) example_store
          (example_request [(''key'', ''no key'')])) =
        Inr (send_json_response (example_env False) 404 ''Object not found.''
               (Some [(''key'', JString ''no key'')]))"
    by (simp add: ItemRESTHandler_get_def AnnouncementEntity_get_def example_env_def
        example_request_def request_get_def)
  then show ?thesis
    using rest_envelope_shape [of "example_env False" example_store
        "example_request [(''key'', ''no key'')]"] by blast
qed

subsection \<open>Action dispatch\<close>

text \<open>
  C6.  \<^verbatim>\<open>self.request.get('action')\<close> is the empty string when the parameter is missing.
  On GET, a missing action is dispatched to \<open>get_list\<close> (as is \<open>list\<close>; \<open>edit\<close> goes to
  \<open>get_edit\<close>), and any action given outside \<open>list\<close> and \<open>edit\<close> gets HTTP 404.  On
  POST, \<open>add\<close> and \<open>delete\<close> go to their handlers, and a missing action or any action
  outside these two gets HTTP 404.  The store is untouched by a 404.
\<close>

theorem action_dispatch:
  "(request_get req ''action'' = [] \<longrightarrow>
      AnnouncementsHandler_get e st req = get_list e st req) \<and>
   (request_get req ''action'' = ''list'' \<longrightarrow>
      AnnouncementsHandler_get e st req = get_list e st req) \<and>
   (request_get req ''action'' = ''edit'' \<longrightarrow>
      AnnouncementsHandler_get e st req = get_edit e st req) \<and>
   (request_get req ''action'' \<notin> {[], ''list'', ''edit''} \<longrightarrow>
      AnnouncementsHandler_get e st req = (st, Inr (Error 404))) \<and>
   (request_get req ''action'' = ''add'' \<longrightarrow>
      AnnouncementsHandler_post e st req = post_add e st req) \<and>
   (request_get req ''action'' = ''delete'' \<longrightarrow>
      AnnouncementsHandler_post e st req = post_delete e st req) \<and>
   (request_get req ''action'' \<notin> {''add'', ''delete''} \<longrightarrow>
      AnnouncementsHandler_post e st req = (st, Inr (Error 404))) \<and>
   (map_of (params req) ''action'' = None \<longrightarrow> request_get req ''action'' = [])"
  by (simp add: AnnouncementsHandler_get_def AnnouncementsHandler_post_def default_action_def
      get_actions_def post_actions_def getattr_handler_def request_get_def)

theorem action_dispatch_witness:
  "AnnouncementsHandler_get (example_env False) example_store (example_request []) =
     get_list (example_env False) example_store (example_request []) \<and>
   AnnouncementsHandler_get (example_env False) example_store
     (example_request [(''action'', ''add'')]) = (example_store, Inr (Error 404)) \<and>
   AnnouncementsHandler_post (example_env True) example_store (example_request []) =
     (example_store, Inr (Error 404)) \<and>
   AnnouncementsHandler_post (example_env True) example_store
     (example_request [(''action'', ''list'')]) = (example_store, Inr (Error 404))"
  using action_dispatch [of "example_request []" "example_env False" example_store]
    action_dispatch [of "example_request [(''action'', ''add'')]" "example_env False" example_store]
    action_dispatch [of "example_request []" "example_env True" example_store]
    action_dispatch [of "example_request [(''action'', ''list'')]" "example_env True" example_store]
  by (simp add: example_request_def request_get_def)

subsection \<open>Deleting an announcement\<close>

lemma db_get_key: "db_get st n = Some entity \<Longrightarrow> key entity = Some n"
  by (auto simp: db_get_def find_Some_iff)

lemma db_get_delete: "db_get st n = Some entity \<Longrightarrow> db_get (db_delete st entity) n = None"
  by (frule db_get_key) (simp add: db_get_def db_delete_def find_None_iff)

lemma post_delete_malformed_key:
  "can_delete e \<Longrightarrow> Key e (request_get req ''key'') = None \<Longrightarrow>
   post_delete e st req = (st, Inl BadKeyError)"
  by (simp add: post_delete_def AnnouncementEntity_get_def)

lemma post_delete_decodable_key:
  "can_delete e \<Longrightarrow> Key e (request_get req ''key'') = Some n \<Longrightarrow>
   (db_get st n = None \<longrightarrow> post_delete e st req = (st, Inr (Redirect ''/announcements''))) \<and>
   snd (post_delete e st req) = Inr (Redirect ''/announcements'') \<and>
   db_get (fst (post_delete e st req)) n = None"
  by (auto simp: post_delete_def AnnouncementEntity_get_def db_get_delete split: option.splits)

text \<open>
  C5 does not hold of the code.  \<open>post_delete\<close> calls \<^verbatim>\<open>AnnouncementEntity.get(key)\<close>
  bare, whereas the REST GET wraps the same call in \<^verbatim>\<open>try/except db.BadKeyError\<close>.  So
  for a key that names no stored record because it is no key at all (a malformed one,
  or none: the \<open>key\<close> parameter missing), a viewer with delete rights gets the exception
  instead of the silent redirect to the list view, while the REST GET answers 404 for
  the very same key.  What does hold: for a key string that decodes, the handler
  redirects to the list view, leaves the store as it was when the key has no record,
  and leaves no record under that key (\<open>post_delete_decodable_key\<close>).
\<close>

theorem post_delete_malformed_key_raises:
  "can_delete (example_env True) \<and>
   AnnouncementsHandler_post (example_env True) example_store
     (example_request [(''action'', ''delete''), (''key'', ''no key'')]) =
     (example_store, Inl BadKeyError) \<and>
   AnnouncementsHandler_post (example_env True) example_store
     (example_request [(''action'', ''delete'')]) = (example_store, Inl BadKeyError) \<and>
   ItemRESTHandler_get (example_env True) example_store (example_request [(''key'', ''no key'')]) =
     (example_store, Inr (send_json_response (example_env True) 404 ''Object not found.''
        (Some [(''key'', JString ''no key'')])))"
  by (simp add: can_delete_def can_edit_def AnnouncementsHandler_post_def post_actions_def
      getattr_handler_def post_delete_def ItemRESTHandler_get_def AnnouncementEntity_get_def
      example_env_def example_request_def request_get_def)

subsection \<open>Adding an announcement\<close>

lemma fold_max_ge: "(y::nat) \<in> set (a # ys) \<Longrightarrow> y \<le> fold max ys a"
  by (simp only: Max.set_eq_fold [symmetric]) (rule Max_ge, simp_all)

lemma allocate_id_fresh: "db_get st (allocate_id st) = None"
proof -
  have "k < allocate_id st" if "x \<in> set st" "key x = Some k" for x k
  proof -
    have "k \<in> set (0 # map (\<lambda>x. case key x of None \<Rightarrow> 0 | Some k \<Rightarrow> k) st)"
      using that by (force simp: image_iff)
    then show ?thesis
      unfolding allocate_id_def using fold_max_ge less_Suc_eq_le by blast
  qed
  then show ?thesis
    by (fastforce simp: db_get_def find_None_iff)
qed

lemma db_get_append_new:
  "db_get st n = None \<Longrightarrow> key x = Some n \<Longrightarrow> db_get (st @ [x]) n = Some x"
  by (induction st) (auto simp: db_get_def)

text \<open>
  C7.  For every POST add by a viewer with add rights: one record is appended to the
  store, with a key no stored record had, the title "Sample Announcement" (not empty),
  the body "Here is my announcement!", today's date and the draft flag set; the
  response redirects to the edit action for the new record's key; and a lookup of that
  key in the store left behind, by the key or by any string that decodes to it, gives
  this record.
\<close>

theorem post_add_creates_draft:
  "can_add e \<Longrightarrow>
   saved = \<lparr>key = Some (allocate_id st), title = Some ''Sample Announcement'',
            date = Some (now_date e), html = Some ''Here is my announcement!'',
            is_draft = Some True\<rparr> \<Longrightarrow>
     post_add e st req =
       (st @ [saved],
        Inr (Redirect (canonicalize_url e (''/announcements?'' @
               urlencode e [(''action'', ''edit''), (''key'', str_of_key e (allocate_id st))])))) \<and>
     db_get st (allocate_id st) = None \<and>
     db_get (fst (post_add e st req)) (allocate_id st) = Some saved \<and>
     (\<forall>encoded. Key e encoded = Some (allocate_id st) \<longrightarrow>
        AnnouncementEntity_get e (fst (post_add e st req)) encoded = Inr (Some saved)) \<and>
     is_draft saved = Some True \<and> title saved \<noteq> None \<and> title saved \<noteq> Some [] \<and>
     html saved = Some ''Here is my announcement!'' \<and> date saved = Some (now_date e)"
proof -
  assume a: "can_add e"
    and s: "saved = \<lparr>key = Some (allocate_id st), title = Some ''Sample Announcement'',
            date = Some (now_date e), html = Some ''Here is my announcement!'',
            is_draft = Some True\<rparr>"
  have p: "post_add e st req =
       (st @ [saved],
        Inr (Redirect (canonicalize_url e (''/announcements?'' @
               urlencode e [(''action'', ''edit''), (''key'', str_of_key e (allocate_id st))]))))"
    using a by (simp add: post_add_def db_put_def new_entity_def get_action_url_def s Let_def)
  have g: "db_get (st @ [saved]) (allocate_id st) = Some saved"
    by (rule db_get_append_new [OF allocate_id_fresh]) (simp add: s)
  show ?thesis
    by (simp add: p g allocate_id_fresh AnnouncementEntity_get_def) (simp add: s)
qed

theorem post_add_creates_draft_witness:
  "post_add (example_env True) example_store (example_request [(''action'', ''add'')]) =
     (example_store @
        [\<lparr>key = Some 3, title = Some ''Sample Announcement'', date = Some 737425,
          html = Some ''Here is my announcement!'', is_draft = Some True\<rparr>],
      Inr (Redirect ''/announcements?action=edit&key=key3'')) \<and>
   AnnouncementEntity_get (example_env True)
     (fst (post_add (example_env True) example_store (example_request [(''action'', ''add'')])))
     ''key3'' =
     Inr (Some \<lparr>key = Some 3, title = Some ''Sample Announcement'', date = Some 737425,
          html = Some ''Here is my announcement!'', is_draft = Some True\<rparr>)"
proof -
  have a: "can_add (example_env True)"
    by (simp add: can_add_def can_edit_def example_env_def)
  have i: "allocate_id example_store = 3"
    by (simp add: allocate_id_def example_store_def)
  have k: "Key (example_env True) ''key3'' = Some 3"
    by (simp add: example_env_def)
  have s: "\<lparr>key = Some 3, title = Some ''Sample Announcement'', date = Some 737425,
          html = Some ''Here is my announcement!'', is_draft = Some True\<rparr> =
      \<lparr>key = Some (allocate_id example_store), title = Some ''Sample Announcement'',
            date = Some (now_date (example_env True)), html = Some ''Here is my announcement!'',
            is_draft = Some True\<rparr>"
    by (simp add: i example_env_def)
  have u: "canonicalize_url (example_env True) (''/announcements?'' @
      urlencode (example_env True)
        [(''action'', ''edit''), (''key'', str_of_key (example_env True) 3)]) =
      ''/announcements?action=edit&key=key3''"
    by (simp add: example_env_def)
  note t = post_add_creates_draft [OF a s, of "example_request [(''action'', ''add'')]",
      unfolded i]
  from t have p: "post_add (example_env True) example_store
      (example_request [(''action'', ''add'')]) =
     (example_store @
        [\<lparr>key = Some 3, title = Some ''Sample Announcement'', date = Some 737425,
          html = Some ''Here is my announcement!'', is_draft = Some True\<rparr>],
      Inr (Redirect ''/announcements?action=edit&key=key3''))"
    unfolding u by (rule conjunct1)
  from t k have "AnnouncementEntity_get (example_env True)
     (fst (post_add (example_env True) example_store (example_request [(''action'', ''add'')])))
     ''key3'' =
     Inr (Some \<lparr>key = Some 3, title = Some ''Sample Announcement'', date = Some 737425,
          html = Some ''Here is my announcement!'', is_draft = Some True\<rparr>)"
    by blast
  with p show ?thesis by (rule conjI)
qed

subsection \<open>Round trip: REST PUT, then REST GET\<close>

lemma db_get_replace:
  "db_get st n = Some old \<Longrightarrow> key entity = Some n \<Longrightarrow>
   db_get (map (\<lambda>x. if key x = Some n then entity else x) st) n = Some entity"
  by (induction st) (auto simp: db_get_def split: if_splits)

lemma db_get_put_saved:
  "db_get st n = Some old \<Longrightarrow> key entity = Some n \<Longrightarrow>
   db_get (fst (db_put st entity)) n = Some entity"
  by (simp add: db_put_def db_get_replace)

lemma json_to_dict_written:
  "map_of written ''title'' = Some (JString t) \<Longrightarrow>
   map_of written ''date'' = Some (JString ds) \<Longrightarrow>
   map_of written ''html'' = Some (JString h) \<Longrightarrow>
   map_of written ''is_draft'' = Some (JBool b) \<Longrightarrow>
   strptime e ds = Some d \<Longrightarrow>
   json_to_dict e (JObject written) SCHEMA_DICT =
     Inr [(''title'', PStr t), (''date'', PDate d), (''html'', PStr h), (''is_draft'', PBool b)]"
  by (simp add: json_to_dict_def SCHEMA_DICT_def)

lemma dict_to_entity_written:
  "dict_to_entity old
     [(''title'', PStr t), (''date'', PDate d), (''html'', PStr h), (''is_draft'', PBool b)] =
   Inr (old\<lparr>title := Some t, date := Some d, html := Some h, is_draft := Some b\<rparr>)"
  by (simp add: set_property_def)

text \<open>
  C4.  Let an editor send a PUT whose request decodes to an object with the key \<open>k\<close> of
  a stored record and a payload that decodes to an object holding a title, a date in
  the ISO format (\<open>ds\<close> parses to a date that is formatted as \<open>ds\<close>), a body and a draft
  flag.  Then the PUT answers 200 "Saved." and leaves a store in which the record of
  \<open>k\<close> is the old one with exactly these four fields replaced, and a GET on the same key
  answers 200 "Success." with, as payload, the serialisation of the four fields that
  were written.  (That decoding the payload string gives back the dictionary it
  serialises is a property of the \<^verbatim>\<open>json\<close> library, outside this module.)
\<close>

theorem put_then_get_round_trip:
  assumes edit: "can_edit e"
    and request: "json_loads e (request_get req ''request'') = Some (JObject request_dict)"
    and k: "map_of request_dict ''key'' = Some (JString k)"
    and payload: "map_of request_dict ''payload'' = Some (JString payload)"
    and existing: "Key e k = Some n" "db_get st n = Some old"
    and written: "json_loads e payload = Some (JObject written)"
    and fields: "map_of written ''title'' = Some (JString t)"
      "map_of written ''date'' = Some (JString ds)"
      "map_of written ''html'' = Some (JString h)"
      "map_of written ''is_draft'' = Some (JBool b)"
    and iso: "strptime e ds = Some d" "strftime e d = ds"
    and same_key: "request_get req' ''key'' = k"
  shows "\<exists>st'.
     ItemRESTHandler_put e st req =
       (st', Inr (Write (json_dumps e (JObject
          [(''status'', JInt 200), (''message'', JString ''Saved.'')])))) \<and>
     db_get st' n =
       Some (old\<lparr>title := Some t, date := Some d, html := Some h, is_draft := Some b\<rparr>) \<and>
     ItemRESTHandler_get e st' req' =
       (st', Inr (Write (json_dumps e (JObject
          [(''status'', JInt 200), (''message'', JString ''Success.''),
           (''payload'', JString (json_dumps e (JObject
              [(''title'', JString t), (''date'', JString ds),
               (''html'', JString h), (''is_draft'', JBool b)])))]))))"
proof -
  define new where
    "new = old\<lparr>title := Some t, date := Some d, html := Some h, is_draft := Some b\<rparr>"
  define st' where "st' = fst (db_put st new)"
  have key_new: "key new = Some n"
    using db_get_key [OF existing(2)] by (simp add: new_def)
  have put: "ItemRESTHandler_put e st req =
      (st', Inr (send_json_response e 200 ''Saved.'' None))"
    using edit request k payload existing written
    by (simp add: ItemRESTHandler_put_def AnnouncementEntity_get_json_def
        AnnouncementEntity_get_def json_to_dict_written [OF fields iso(1)]
        dict_to_entity_written st'_def new_def del: dict_to_entity.simps)
  have stored: "db_get st' n = Some new"
    unfolding st'_def by (rule db_get_put_saved [OF existing(2) key_new])
  have get: "ItemRESTHandler_get e st' req' =
      (st', Inr (send_json_response e 200 ''Success.''
         (Some (dict_to_json e (entity_to_dict e new) SCHEMA_DICT))))"
    using existing(1) stored same_key
    by (simp add: ItemRESTHandler_get_def AnnouncementEntity_get_def)
  have json: "dict_to_json e (entity_to_dict e new) SCHEMA_DICT =
      [(''title'', JString t), (''date'', JString ds),
       (''html'', JString h), (''is_draft'', JBool b)]"
    by (simp add: dict_to_json_entity new_def iso(2))
  show ?thesis
    using put stored get [unfolded json]
    by (simp add: send_json_response_def json_response_def new_def)
qed


theorem put_then_get_round_trip_witness:
  "\<exists>st'.
     ItemRESTHandler_put (example_env True) example_store
       (example_request [(''request'', dumps (JObject (example_put ''key1'')))]) =
       (st', Inr (Write (dumps (JObject
          [(''status'', JInt 200), (''message'', JString ''Saved.'')])))) \<and>
     db_get st' 1 =
       Some \<lparr>key = Some 1, title = Some ''X'', date = Some 737425, html = Some ''Y'',
              is_draft = Some False\<rparr> \<and>
     ItemRESTHandler_get (example_env True) st' (example_request [(''key'', ''key1'')]) =
       (st', Inr (Write (dumps (JObject
          [(''status'', JInt 200), (''message'', JString ''Success.''),
           (''payload'', JString (dumps (JObject
              [(''title'', JString ''X''), (''date'', JString ''2020-01-01''),
               (''html'', JString ''Y''), (''is_draft'', JBool False)])))]))))"
proof -
  let ?e = "example_env True"
  let ?req = "example_request [(''request'', dumps (JObject (example_put ''key1'')))]"
  have edit: "can_edit ?e"
    by (simp add: can_edit_def example_env_def)
  have request: "json_loads ?e (request_get ?req ''request'') = Some (JObject (example_put ''key1''))"
    using example_request_key1 [of True] by (simp add: request_get_def example_request_def)
  have k: "map_of (example_put ''key1'') ''key'' = Some (JString ''key1'')"
    by (simp add: example_put_def)
  have payload: "map_of (example_put ''key1'') ''payload'' =
      Some (JString (dumps (JObject example_fields)))"
    by (simp add: example_put_def)
  have existing: "Key ?e ''key1'' = Some 1"
    "db_get example_store 1 = Some (hd example_store)"
    by (simp_all add: example_env_def db_get_def example_store_def)
  have written: "json_loads ?e (dumps (JObject example_fields)) = Some (JObject example_fields)"
    by (simp add: example_env_def example_loads_def example_fields_def dumps_string_def)
  have fields: "map_of example_fields ''title'' = Some (JString ''X'')"
    "map_of example_fields ''date'' = Some (JString ''2020-01-01'')"
    "map_of example_fields ''html'' = Some (JString ''Y'')"
    "map_of example_fields ''is_draft'' = Some (JBool False)"
    by (simp_all add: example_fields_def)
  have iso: "strptime ?e ''2020-01-01'' = Some 737425" "strftime ?e 737425 = ''2020-01-01''"
    by (simp_all add: example_env_def)
  have same_key: "request_get (example_request [(''key'', ''key1'')]) ''key'' = ''key1''"
    by (simp add: request_get_def example_request_def)
  have d: "json_dumps ?e = dumps"
    by (simp add: example_env_def)
  have old: "hd example_store\<lparr>title := Some ''X'', date := Some 737425, html := Some ''Y'',
      is_draft := Some False\<rparr> =
      \<lparr>key = Some 1, title = Some ''X'', date = Some 737425, html = Some ''Y'',
              is_draft = Some False\<rparr>"
    by (simp add: example_store_def)
  show ?thesis
    using put_then_get_round_trip [OF edit request k payload existing written fields iso same_key]
    unfolding d old .
qed

subsection \<open>The list view: fetch and one-time seeding\<close>

lemma fetch_length: "length (fetch_order_date_desc limit st) \<le> limit"
  by (simp add: fetch_order_date_desc_def)

lemma fetch_sorted:
  "sorted_wrt (\<lambda>a b. date b \<le> date a) (fetch_order_date_desc limit st)"
proof -
  have "sorted_wrt (\<lambda>a b. date a \<le> date b) (sort_key date (rev st))"
    using sorted_sort_key [of date "rev st"] by (simp add: sorted_wrt_map)
  then have "sorted_wrt (\<lambda>a b. date b \<le> date a) (rev (sort_key date (rev st)))"
    by (simp add: sorted_wrt_rev)
  then show ?thesis
    unfolding fetch_order_date_desc_def by (rule sorted_wrt_take)
qed

lemma fetch_mset: "mset (fetch_order_date_desc limit st) \<subseteq># mset st"
proof -
  let ?xs = "rev (sort_key date (rev st))"
  have "mset ?xs = mset (take limit ?xs) + mset (drop limit ?xs)"
    by (metis append_take_drop_id mset_append)
  moreover have "mset ?xs = mset st" by simp
  ultimately show ?thesis
    unfolding fetch_order_date_desc_def by (metis mset_subset_eq_add_left)
qed

lemma fetch_all: "length st \<le> limit \<Longrightarrow> mset (fetch_order_date_desc limit st) = mset st"
  by (simp add: fetch_order_date_desc_def)

lemma fetch_empty: "0 < limit \<Longrightarrow> fetch_order_date_desc limit st = [] \<longleftrightarrow> st = []"
proof -
  assume "0 < limit"
  moreover have "length (fetch_order_date_desc limit st) = min (length st) limit"
    by (simp add: fetch_order_date_desc_def)
  ultimately have "length (fetch_order_date_desc limit st) = 0 \<longleftrightarrow> length st = 0"
    by (auto simp: min_def)
  then show ?thesis by (simp only: length_0_conv)
qed

lemma set_property_key: "set_property a name v = Inr b \<Longrightarrow> key b = key a"
  by (auto simp: set_property_def split: if_splits pyval.splits)

lemma dict_to_entity_key: "dict_to_entity a d = Inr b \<Longrightarrow> key b = key a"
proof (induction d arbitrary: a)
  case Nil
  then show ?case by simp
next
  case (Cons p d)
  obtain name v where p: "p = (name, v)" by (cases p)
  from Cons.prems obtain a' where a': "set_property a name v = Inr a'"
    and rest: "dict_to_entity a' d = Inr b"
    by (auto simp: p split: sum.splits)
  show ?case
    using Cons.IH [OF rest] set_property_key [OF a'] by simp
qed

lemma put_sample_loop_appends:
  "put_sample_loop st items samples = (st', Inr items') \<Longrightarrow>
   \<exists>new. st' = st @ new \<and> items' = items @ new \<and>
     map (\<lambda>x. Inr (x\<lparr>key := None\<rparr>)) new = map (dict_to_entity new_entity) samples"
proof (induction samples arbitrary: st items)
  case Nil
  then show ?case by simp
next
  case (Cons item samples)
  from Cons.prems obtain entity where entity: "dict_to_entity new_entity item = Inr entity"
    by (auto split: sum.splits)
  have unsaved: "key entity = None"
    using dict_to_entity_key [OF entity] by (simp add: new_entity_def)
  define saved where "saved = entity\<lparr>key := Some (allocate_id st)\<rparr>"
  have put: "db_put st entity = (st @ [saved], saved)"
    by (simp add: db_put_def unsaved saved_def Let_def)
  have restored: "saved\<lparr>key := None\<rparr> = entity"
    using unsaved by (simp add: saved_def)
  from Cons.prems have "put_sample_loop (st @ [saved]) (items @ [saved]) samples = (st', Inr items')"
    by (simp add: entity put)
  from Cons.IH [OF this] obtain new where new: "st' = (st @ [saved]) @ new"
    "items' = (items @ [saved]) @ new"
    "map (\<lambda>x. Inr (x\<lparr>key := None\<rparr>)) new = map (dict_to_entity new_entity) samples"
    by blast
  have "st' = st @ (saved # new) \<and> items' = items @ (saved # new) \<and>
     map (\<lambda>x. Inr (x\<lparr>key := None\<rparr>)) (saved # new) =
     map (dict_to_entity new_entity) (item # samples)"
    using new by (simp add: restored entity)
  then show ?case by blast
qed

lemma format_items_loop_map:
  "\<exists>f. \<forall>acc items. format_items_loop e acc items = Inr (acc @ map f items)"
proof -
  define f where "f = (\<lambda>entity.
     let item = entity_to_dict e entity;
         k = (case key entity of None \<Rightarrow> PNone | Some n \<Rightarrow> PStr (str_of_key e n))
     in if can_edit e
        then dict_set (dict_set item ''edit_action'' (PStr (get_action_url e ''edit'' k)))
               ''delete_action'' (PStr (get_action_url e ''delete'' k))
        else item)"
  have k: "map_of (entity_to_dict e entity) ''key'' =
      Some (case key entity of None \<Rightarrow> PNone | Some n \<Rightarrow> PStr (str_of_key e n))" for entity
    by (simp add: entity_to_dict_def)
  have "format_items_loop e acc items = Inr (acc @ map f items)" for acc items
    by (induction items arbitrary: acc) (simp_all add: k f_def Let_def)
  then show ?thesis by blast
qed

lemma format_items_for_template_children:
  "\<exists>f. \<forall>items. format_items_for_template e items =
     Inr ((''children'', TItems (map f items)) #
          (if can_edit e then [(''add_action'', TStr (get_action_url e ''add'' PNone))] else []))"
proof -
  obtain f where "\<And>acc items. format_items_loop e acc items = Inr (acc @ map f items)"
    using format_items_loop_map [of e] by blast
  then have "format_items_for_template e items =
     Inr ((''children'', TItems (map f items)) #
          (if can_edit e then [(''add_action'', TStr (get_action_url e ''add'' PNone))] else []))"
    for items
    by (simp add: format_items_for_template_def)
  then show ?thesis by blast
qed

lemma apply_rights_mset:
  "mset xs = mset ys \<Longrightarrow> mset (apply_rights e xs) = mset (apply_rights e ys)"
  by (simp add: apply_rights_def apply_rights_loop_filter)

text \<open>
  C8.  The query of the list view returns at most 1000 records of the store, latest
  date first; on a store that is not empty, the list view shows what the query returns
  (after \<open>apply_rights\<close>) and leaves the store as it is, so nothing is seeded there.
  For an enrolled viewer and a sample set of at most 1000 entries: when the list view
  on the empty store renders, the store it leaves holds one record per sample, in the
  samples' order (each is its sample applied to a new entity, plus a key), and a later
  list call on that store leaves it unchanged (no sample is inserted again) and shows
  the same announcements as the first call, as a multiset: the first call lists them in
  the samples' order, a later one by date.
\<close>

theorem get_list_seeds_once:
  assumes user: "personalize_page_and_get_user e = Some email"
      "get_enrolled_student_by_email e email"
    and samples: "length (SAMPLE_ANNOUNCEMENTS e) \<le> 1000"
    and first: "get_list e [] req = (st1, Inr r1)"
  shows "length (fetch_order_date_desc 1000 st) \<le> 1000 \<and>
     sorted_wrt (\<lambda>a b. date b \<le> date a) (fetch_order_date_desc 1000 st) \<and>
     mset (fetch_order_date_desc 1000 st) \<subseteq># mset st \<and>
     (st \<noteq> [] \<longrightarrow>
        (\<exists>announcements.
           format_items_for_template e (apply_rights e (fetch_order_date_desc 1000 st)) =
             Inr announcements \<and>
           get_list e st req' =
             (st, Inr (Render ''announcements.html''
                [(''announcements'', TDict announcements),
                 (''navbar'', TDict [(''announcements'', TBool True)])])))) \<and>
     map (\<lambda>x. Inr (x\<lparr>key := None\<rparr>)) st1 =
       map (dict_to_entity new_entity) (SAMPLE_ANNOUNCEMENTS e) \<and>
     (\<exists>items1 items2 rest.
        r1 = Render ''announcements.html''
               [(''announcements'', TDict ((''children'', TItems items1) # rest)),
                (''navbar'', TDict [(''announcements'', TBool True)])] \<and>
        get_list e st1 req' =
          (st1, Inr (Render ''announcements.html''
               [(''announcements'', TDict ((''children'', TItems items2) # rest)),
                (''navbar'', TDict [(''announcements'', TBool True)])])) \<and>
        mset items2 = mset items1)"
proof -
  obtain f where f: "\<And>items. format_items_for_template e items =
     Inr ((''children'', TItems (map f items)) #
          (if can_edit e then [(''add_action'', TStr (get_action_url e ''add'' PNone))] else []))"
    using format_items_for_template_children [of e] by blast
  define rest where
    "rest = (if can_edit e then [(''add_action'', TStr (get_action_url e ''add'' PNone))] else [])"
  define page where "page = (\<lambda>items. Render ''announcements.html''
               [(''announcements'', TDict ((''children'', TItems (map f (apply_rights e items))) # rest)),
                (''navbar'', TDict [(''announcements'', TBool True)])])"
  have listed: "get_list e s r = (s, Inr (page (fetch_order_date_desc 1000 s)))"
    if "s \<noteq> []" for s r
    using that user fetch_empty [of 1000 s]
    by (simp add: get_list_def f page_def rest_def)
  have seeded: "get_list e [] r =
      (case put_sample_announcements e [] of
         (s, Inl err) \<Rightarrow> (s, Inl err)
       | (s, Inr items) \<Rightarrow> (s, Inr (page items)))" for r
    using user
    by (simp add: get_list_def f page_def rest_def fetch_order_date_desc_def
        split: prod.splits sum.splits)
  from first obtain items where put: "put_sample_announcements e [] = (st1, Inr items)"
    and r1: "r1 = page items"
    by (auto simp: seeded split: prod.splits sum.splits)
  from put_sample_loop_appends [OF put [unfolded put_sample_announcements_def]]
  have new: "items = st1"
    "map (\<lambda>x. Inr (x\<lparr>key := None\<rparr>)) st1 =
       map (dict_to_entity new_entity) (SAMPLE_ANNOUNCEMENTS e)"
    by auto
  have "length st1 = length (SAMPLE_ANNOUNCEMENTS e)"
    using new(2) by (metis length_map)
  then have small: "length st1 \<le> 1000"
    using samples by simp
  have second: "\<exists>items2. get_list e st1 req' = (st1, Inr (page items2)) \<and>
      mset items2 = mset st1"
  proof (cases "st1 = []")
    case True
    then show ?thesis
      using put new(1) by (auto simp: seeded)
  next
    case False
    then show ?thesis
      using listed [OF False, of req'] fetch_all [OF small] by blast
  qed
  then obtain items2 where items2: "get_list e st1 req' = (st1, Inr (page items2))"
    "mset items2 = mset st1"
    by blast
  have "mset (map f (apply_rights e items2)) = mset (map f (apply_rights e st1))"
    using apply_rights_mset [OF items2(2), of e] by simp
  then have third: "\<exists>items1 items2 rest.
        r1 = Render ''announcements.html''
               [(''announcements'', TDict ((''children'', TItems items1) # rest)),
                (''navbar'', TDict [(''announcements'', TBool True)])] \<and>
        get_list e st1 req' =
          (st1, Inr (Render ''announcements.html''
               [(''announcements'', TDict ((''children'', TItems items2) # rest)),
                (''navbar'', TDict [(''announcements'', TBool True)])])) \<and>
        mset items2 = mset items1"
    using r1 items2(1) unfolding page_def new(1) by blast
  have fourth: "st \<noteq> [] \<longrightarrow>
        (\<exists>announcements.
           format_items_for_template e (apply_rights e (fetch_order_date_desc 1000 st)) =
             Inr announcements \<and>
           get_list e st req' =
             (st, Inr (Render ''announcements.html''
                [(''announcements'', TDict announcements),
                 (''navbar'', TDict [(''announcements'', TBool True)])])))"
    using listed [of st req'] by (simp add: f page_def rest_def)
  show ?thesis
    using fetch_length [of 1000 st] fetch_sorted [of 1000 st] fetch_mset [of 1000 st]
      fourth new(2) third
    by (intro conjI)
qed


theorem get_list_seeds_once_witness:
  "get_list (example_env False) [] (example_request []) =
     ([\<lparr>key = Some 1, title = Some ''Example Announcement'', date = Some 734782,
        html = Some ''Welcome to the course.'', is_draft = Some False\<rparr>,
       \<lparr>key = Some 2, title = Some ''Example Draft'', date = Some 737425,
        html = Some ''Not yet published.'', is_draft = Some True\<rparr>],
      Inr (Render ''announcements.html''
        [(''announcements'', TDict [(''children'', TItems
            [[(''key'', PStr ''key1''), (''title'', PStr ''Example Announcement''),
              (''date'', PDate 734782), (''html'', PStr ''Welcome to the course.''),
              (''is_draft'', PBool False)]])]),
         (''navbar'', TDict [(''announcements'', TBool True)])])) \<and>
   (\<exists>items1 items2 rest.
      Render ''announcements.html''
        [(''announcements'', TDict [(''children'', TItems
            [[(''key'', PStr ''key1''), (''title'', PStr ''Example Announcement''),
              (''date'', PDate 734782), (''html'', PStr ''Welcome to the course.''),
              (''is_draft'', PBool False)]])]),
         (''navbar'', TDict [(''announcements'', TBool True)])] =
      Render ''announcements.html''
        [(''announcements'', TDict ((''children'', TItems items1) # rest)),
         (''navbar'', TDict [(''announcements'', TBool True)])] \<and>
      get_list (example_env False)
        [\<lparr>key = Some 1, title = Some ''Example Announcement'', date = Some 734782,
          html = Some ''Welcome to the course.'', is_draft = Some False\<rparr>,
         \<lparr>key = Some 2, title = Some ''Example Draft'', date = Some 737425,
          html = Some ''Not yet published.'', is_draft = Some True\<rparr>]
        (example_request [(''action'', ''list'')]) =
        ([\<lparr>key = Some 1, title = Some ''Example Announcement'', date = Some 734782,
           html = Some ''Welcome to the course.'', is_draft = Some False\<rparr>,
          \<lparr>key = Some 2, title = Some ''Example Draft'', date = Some 737425,
           html = Some ''Not yet published.'', is_draft = Some True\<rparr>],
         Inr (Render ''announcements.html''
           [(''announcements'', TDict ((''children'', TItems items2) # rest)),
            (''navbar'', TDict [(''announcements'', TBool True)])])) \<and>
      mset items2 = mset items1)"
proof -
  let ?e = "example_env False"
  have user: "personalize_page_and_get_user ?e = Some ''student@example.com''"
    "get_enrolled_student_by_email ?e ''student@example.com''"
    by (simp_all add: example_env_def)
  have samples: "length (SAMPLE_ANNOUNCEMENTS ?e) \<le> 1000"
    by (simp add: example_env_def example_samples_def)
  have first: "get_list ?e [] (example_request []) =
     ([\<lparr>key = Some 1, title = Some ''Example Announcement'', date = Some 734782,
        html = Some ''Welcome to the course.'', is_draft = Some False\<rparr>,
       \<lparr>key = Some 2, title = Some ''Example Draft'', date = Some 737425,
        html = Some ''Not yet published.'', is_draft = Some True\<rparr>],
      Inr (Render ''announcements.html''
        [(''announcements'', TDict [(''children'', TItems
            [[(''key'', PStr ''key1''), (''title'', PStr ''Example Announcement''),
              (''date'', PDate 734782), (''html'', PStr ''Welcome to the course.''),
              (''is_draft'', PBool False)]])]),
         (''navbar'', TDict [(''announcements'', TBool True)])]))"
    by (simp add: get_list_def example_env_def fetch_order_date_desc_def
        put_sample_announcements_def example_samples_def new_entity_def set_property_def
        db_put_def allocate_id_def format_items_for_template_def entity_to_dict_def
        apply_rights_def can_edit_def Let_def)
  from get_list_seeds_once [OF user samples first, of "[]" "example_request [(''action'', ''list'')]"]
  show ?thesis
    unfolding first by blast
qed

end
